theory Spec2Isabelle
  imports Complex_Main
begin

section \<open>JavaScript values used by the services\<close>

text \<open>
  A field of a Firestore document or of a request object that may be missing is an
  \<open>option\<close>: \<open>None\<close> is JavaScript's \<^verbatim>\<open>undefined\<close>. For a string-valued field the
  tests \<^verbatim>\<open>!x\<close>, \<^verbatim>\<open>x && ...\<close> and \<^verbatim>\<open>x || d\<close> take \<^verbatim>\<open>undefined\<close> and the empty
  string as false and every other string as true.
\<close>

fun truthy :: "string option \<Rightarrow> bool" where
  "truthy None = False"
| "truthy (Some x) = (x \<noteq> [])"

text \<open>\<^verbatim>\<open>x || d\<close> on a string-valued field.\<close>

fun or_default :: "string option \<Rightarrow> string \<Rightarrow> string" where
  "or_default None d = d"
| "or_default (Some x) d = (if x \<noteq> [] then x else d)"

text \<open>\<^verbatim>\<open>${x}\<close> inside a template literal.\<close>

fun tmpl :: "string option \<Rightarrow> string" where
  "tmpl None = ''undefined''"
| "tmpl (Some x) = x"

section \<open>Data model\<close>

text \<open>
  A document of the \<^verbatim>\<open>complaints\<close> collection. Timestamps are milliseconds since
  the epoch. \<open>c_createdAt\<close> is \<^verbatim>\<open>new Date(complaint.createdAt).getTime()\<close>: \<open>None\<close>
  stands for an invalid date, whose time is NaN.
\<close>

record complaint =
  c_complaintId :: "string option"
  c_userId :: "string option"
  c_category :: "string option"
  c_status :: "string option"
  c_priority :: "string option"
  c_createdAt :: "int option"
  c_updatedAt :: "int option"
  c_updatedBy :: "string option"
  c_assignedTo :: "string option"
  c_department :: "string option"
  c_lastUpdateNotes :: "string option"
  c_resolvedImageBase64 :: "string option"
  c_resolvedBy :: "string option"
  c_resolvedAt :: "int option"

section \<open>SLA monitor (SLANotificationService)\<close>

text \<open>
  The current wall-clock time \<^verbatim>\<open>new Date()\<close> is the parameter \<open>now\<close>, in milliseconds.
  JavaScript numbers are modelled as exact rationals; the operands here are integer
  millisecond counts, on which the comparisons below agree with their double-precision
  evaluation. A comparison with NaN is false, and \<^verbatim>\<open>Math.max(0, NaN)\<close> is NaN (\<open>None\<close>).
\<close>

definition SLA_SECONDS :: rat where
  "SLA_SECONDS = 48"

definition secondsSinceCreated :: "int \<Rightarrow> int \<Rightarrow> rat" where
  "secondsSinceCreated now created = of_int (now - created) / 1000"

definition isSLABreached :: "int \<Rightarrow> complaint \<Rightarrow> bool" where
  "isSLABreached now c =
     (case c_createdAt c of
        None \<Rightarrow> False
      | Some created \<Rightarrow> secondsSinceCreated now created > SLA_SECONDS)"

definition getSecondsUntilDeadline :: "int \<Rightarrow> complaint \<Rightarrow> rat option" where
  "getSecondsUntilDeadline now c =
     (case c_createdAt c of
        None \<Rightarrow> None
      | Some created \<Rightarrow> Some (max 0 (SLA_SECONDS - secondsSinceCreated now created)))"

text \<open>
  The sibling \<^verbatim>\<open>DashboardStatsService.isSLABreached\<close>: a resolved complaint is never
  breached; otherwise the threshold is chosen by priority, in hours. There
  \<^verbatim>\<open>createdAt\<close> is tested for presence before it is converted.
\<close>

fun slaHours :: "string \<Rightarrow> rat option" where
  "slaHours p =
     (if p = ''High'' then Some 24
      else if p = ''Medium'' then Some 72
      else if p = ''Low'' then Some 168
      else None)"

definition dashboard_isSLABreached :: "int \<Rightarrow> complaint \<Rightarrow> bool" where
  "dashboard_isSLABreached now c =
     (if c_status c = Some ''resolved'' then False
      else case c_createdAt c of
        None \<Rightarrow> False
      | Some created \<Rightarrow>
          (let priority = or_default (c_priority c) ''Medium'';
               slaLimit = (case slaHours priority of Some h \<Rightarrow> h | None \<Rightarrow> 72)
           in of_int (now - created) / (1000 * 60 * 60) > slaLimit))"

section \<open>Store, external services and errors\<close>

text \<open>The four status values of the type \<^verbatim>\<open>ComplaintStatus\<close> and the strings they are.\<close>

datatype ComplaintStatus = Submitted | InProgress | Resolved | Closed

fun status_str :: "ComplaintStatus \<Rightarrow> string" where
  "status_str Submitted = ''submitted''"
| "status_str InProgress = ''in-progress''"
| "status_str Resolved = ''resolved''"
| "status_str Closed = ''closed''"

record StatusUpdateData =
  sd_status :: ComplaintStatus
  sd_updatedBy :: string
  sd_updatedAt :: int
  sd_notes :: "string option"
  sd_assignedTo :: "string option"
  sd_department :: "string option"
  sd_resolvedImageUrl :: "string option"
  sd_resolvedBy :: "string option"
  sd_resolvedAt :: "int option"

text \<open>A status history entry as \<^verbatim>\<open>addStatusHistory\<close> receives it (no \<^verbatim>\<open>id\<close>).\<close>

record StatusHistory =
  h_complaintId :: string
  h_previousStatus :: string
  h_newStatus :: ComplaintStatus
  h_updatedBy :: string
  h_updatedAt :: int
  h_notes :: "string option"

record FCMTokenData =
  t_userId :: string
  t_token :: string
  t_deviceType :: string
  t_createdAt :: int
  t_updatedAt :: int
  t_isActive :: bool

text \<open>
  An entry of \<^verbatim>\<open>notificationLogs\<close>. The browser service writes the first eight
  fields; the Cloud Functions add \<^verbatim>\<open>messageId\<close>, \<^verbatim>\<open>sentBy\<close> and \<^verbatim>\<open>error\<close>.
\<close>

record NotificationLog =
  l_userId :: "string option"
  l_complaintId :: string
  l_type :: string
  l_title :: string
  l_body :: string
  l_sentAt :: int
  l_status :: string
  l_fcmToken :: "string option"
  l_messageId :: "string option"
  l_sentBy :: "string option"
  l_error :: "string option"

text \<open>A message handed to \<^verbatim>\<open>messaging.send\<close>.\<close>

record message =
  m_token :: string
  m_title :: string
  m_body :: string
  m_icon :: string
  m_complaintId :: string
  m_type :: string
  m_action :: string
  m_clickAction :: "string option"
  m_link :: "string option"

text \<open>
  The collections and the messages the messaging service has accepted. Documents of
  \<^verbatim>\<open>fcmTokens\<close> are keyed by \<^verbatim>\<open>${userId}_web\<close>.
\<close>

record store =
  complaints :: "string \<rightharpoonup> complaint"
  statusHistory :: "StatusHistory list"
  fcmTokens :: "string \<rightharpoonup> FCMTokenData"
  notificationLogs :: "NotificationLog list"
  outbox :: "message list"

text \<open>
  What the code cannot control in one run: the clock, and whether each call to the
  document store or the messaging service rejects. \<open>Some msg\<close> means that the call throws
  an \<^verbatim>\<open>Error\<close> with message \<open>msg\<close> and changes nothing. \<open>send\<close> is the outcome of
  \<^verbatim>\<open>messaging.send\<close>: an error message or the message id. \<open>app_url\<close> is
  \<^verbatim>\<open>functions.config().app.url\<close>; \<open>None\<close> means that \<^verbatim>\<open>functions.config().app\<close>
  is not configured, so that reading \<^verbatim>\<open>.url\<close> throws a \<^verbatim>\<open>TypeError\<close>.
\<close>

record env =
  clock_now :: int
  complaint_fetch :: "string option"
  complaint_get :: "string option"
  complaint_update :: "string option"
  history_add :: "string option"
  token_get :: "string option"
  log_add :: "string option"
  send :: "string + string"
  app_url :: "string option"

text \<open>
  Thrown values. Every one is an instance of \<^verbatim>\<open>Error\<close> and has a message;
  an \<^verbatim>\<open>HttpsError\<close> has a kind as well.
\<close>

datatype error =
    Error string
  | HttpsError string string
  | TypeError string
  | ReferenceError string

fun error_message :: "error \<Rightarrow> string" where
  "error_message (Error m) = m"
| "error_message (HttpsError k m) = m"
| "error_message (TypeError m) = m"
| "error_message (ReferenceError m) = m"

section \<open>ComplaintStatusService\<close>

text \<open>
  The object \<^verbatim>\<open>updateFields\<close> merged into the current document by \<^verbatim>\<open>updateDoc\<close>:
  \<^verbatim>\<open>assignedTo\<close>, \<^verbatim>\<open>department\<close> and \<^verbatim>\<open>lastUpdateNotes\<close> are spread in only when the
  given value is truthy; the three resolution fields are assigned only for status
  \<^verbatim>\<open>'resolved'\<close>, the image as it was given.
\<close>

definition updateFields :: "StatusUpdateData \<Rightarrow> complaint \<Rightarrow> complaint" where
  "updateFields sd cur =
     (let c1 = cur\<lparr> c_status := Some (status_str (sd_status sd)),
                    c_updatedAt := Some (sd_updatedAt sd),
                    c_updatedBy := Some (sd_updatedBy sd),
                    c_assignedTo := (if truthy (sd_assignedTo sd) then sd_assignedTo sd
                                     else c_assignedTo cur),
                    c_department := (if truthy (sd_department sd) then sd_department sd
                                     else c_department cur),
                    c_lastUpdateNotes := (if truthy (sd_notes sd) then sd_notes sd
                                          else c_lastUpdateNotes cur) \<rparr>
      in if sd_status sd = Resolved
         then c1\<lparr> c_resolvedImageBase64 := sd_resolvedImageUrl sd,
                  c_resolvedBy := Some (or_default (sd_resolvedBy sd) (sd_updatedBy sd)),
                  c_resolvedAt := Some (case sd_resolvedAt sd of
                                          Some t \<Rightarrow> t | None \<Rightarrow> sd_updatedAt sd) \<rparr>
         else c1)"

text \<open>The body of the \<^verbatim>\<open>try\<close> block of \<^verbatim>\<open>addStatusHistory\<close>.\<close>

definition addStatusHistory_try :: "env \<Rightarrow> store \<Rightarrow> StatusHistory \<Rightarrow> (error + unit) \<times> store" where
  "addStatusHistory_try e s h =
     (case history_add e of
        Some msg \<Rightarrow> (Inl (Error msg), s)
      | None \<Rightarrow> (Inr (), s\<lparr> statusHistory := statusHistory s @ [h] \<rparr>))"

text \<open>\<^verbatim>\<open>addStatusHistory\<close>: the \<^verbatim>\<open>catch\<close> block logs the error and does not rethrow.\<close>

definition addStatusHistory :: "env \<Rightarrow> store \<Rightarrow> StatusHistory \<Rightarrow> (error + unit) \<times> store" where
  "addStatusHistory e s h =
     (case addStatusHistory_try e s h of
        (Inl err, s') \<Rightarrow> (Inr (), s')
      | (Inr u, s') \<Rightarrow> (Inr u, s'))"

text \<open>The body of the \<^verbatim>\<open>try\<close> block of \<^verbatim>\<open>updateComplaintStatus\<close>.\<close>

definition updateComplaintStatus_try ::
  "env \<Rightarrow> store \<Rightarrow> string \<Rightarrow> StatusUpdateData \<Rightarrow> (error + unit) \<times> store" where
  "updateComplaintStatus_try e s complaintId sd =
     (case complaint_get e of
        Some msg \<Rightarrow> (Inl (Error msg), s)
      | None \<Rightarrow>
         (case complaints s complaintId of
            None \<Rightarrow> (Inl (Error (''Complaint '' @ complaintId @ '' not found'')), s)
          | Some currentData \<Rightarrow>
             (let previousStatus = or_default (c_status currentData) ''submitted''
              in case complaint_update e of
                   Some msg \<Rightarrow> (Inl (Error msg), s)
                 | None \<Rightarrow>
                     addStatusHistory e
                       (s\<lparr> complaints :=
                             (complaints s)(complaintId \<mapsto> updateFields sd currentData) \<rparr>)
                       \<lparr> h_complaintId = complaintId,
                         h_previousStatus = previousStatus,
                         h_newStatus = sd_status sd,
                         h_updatedBy = sd_updatedBy sd,
                         h_updatedAt = sd_updatedAt sd,
                         h_notes = sd_notes sd \<rparr>)))"

text \<open>
  \<^verbatim>\<open>updateComplaintStatus\<close>: whatever the \<^verbatim>\<open>try\<close> block throws is thrown again as an
  \<^verbatim>\<open>Error\<close> whose message is prefixed.
\<close>

definition updateComplaintStatus ::
  "env \<Rightarrow> store \<Rightarrow> string \<Rightarrow> StatusUpdateData \<Rightarrow> (error + unit) \<times> store" where
  "updateComplaintStatus e s complaintId sd =
     (case updateComplaintStatus_try e s complaintId sd of
        (Inl err, s') \<Rightarrow>
          (Inl (Error (''Failed to update complaint status: '' @ error_message err)), s')
      | (Inr u, s') \<Rightarrow> (Inr u, s'))"

section \<open>FCMService (browser side)\<close>

datatype NotificationType = Confirmation | Acknowledgment | Resolution

fun type_str :: "NotificationType \<Rightarrow> string" where
  "type_str Confirmation = ''confirmation''"
| "type_str Acknowledgment = ''acknowledgment''"
| "type_str Resolution = ''resolution''"

record NotificationPayload =
  p_title :: string
  p_body :: string
  p_icon :: string
  p_data :: "(string \<times> string) list"

text \<open>
  The titles start with a pictograph, written here as the bytes of its UTF-8 encoding.
\<close>

definition title_confirmation :: string where
  "title_confirmation = [CHR 0xE2, CHR 0x9C, CHR 0x85] @ '' Complaint Submitted Successfully''"

definition title_acknowledgment :: string where
  "title_acknowledgment = [CHR 0xF0, CHR 0x9F, CHR 0x94, CHR 0x84] @ '' Complaint Acknowledged''"

definition title_resolution :: string where
  "title_resolution = [CHR 0xE2, CHR 0x9C, CHR 0xA8] @ '' Complaint Resolved''"

fun generateNotificationContent :: "NotificationType \<Rightarrow> complaint \<Rightarrow> NotificationPayload" where
  "generateNotificationContent Confirmation cd =
     \<lparr> p_title = title_confirmation,
       p_body = ''Your '' @ tmpl (c_category cd) @ '' complaint (#'' @ tmpl (c_complaintId cd)
                @ '') has been received and is being processed.'',
       p_icon = ''/icons/confirmation.png'',
       p_data = [(''complaintId'', tmpl (c_complaintId cd)), (''type'', ''confirmation''),
                 (''action'', ''view_complaint'')] \<rparr>"
| "generateNotificationContent Acknowledgment cd =
     \<lparr> p_title = title_acknowledgment,
       p_body = ''Your '' @ tmpl (c_category cd) @ '' complaint (#'' @ tmpl (c_complaintId cd)
                @ '') has been assigned and is now in progress.'',
       p_icon = ''/icons/in-progress.png'',
       p_data = [(''complaintId'', tmpl (c_complaintId cd)), (''type'', ''acknowledgment''),
                 (''action'', ''view_progress'')] \<rparr>"
| "generateNotificationContent Resolution cd =
     \<lparr> p_title = title_resolution,
       p_body = ''Great news! Your '' @ tmpl (c_category cd) @ '' complaint (#''
                @ tmpl (c_complaintId cd) @ '') has been resolved.'',
       p_icon = ''/icons/resolved.png'',
       p_data = [(''complaintId'', tmpl (c_complaintId cd)), (''type'', ''resolution''),
                 (''action'', ''view_resolution'')] \<rparr>"

text \<open>
  \<^verbatim>\<open>logNotification\<close>: the \<^verbatim>\<open>try\<close> block adds the entry; the \<^verbatim>\<open>catch\<close> block prints
  the error and returns normally.
\<close>

definition logNotification_try :: "env \<Rightarrow> store \<Rightarrow> NotificationLog \<Rightarrow> (error + unit) \<times> store" where
  "logNotification_try e s l =
     (case log_add e of
        Some msg \<Rightarrow> (Inl (Error msg), s)
      | None \<Rightarrow> (Inr (), s\<lparr> notificationLogs := notificationLogs s @ [l] \<rparr>))"

definition logNotification :: "env \<Rightarrow> store \<Rightarrow> NotificationLog \<Rightarrow> (error + unit) \<times> store" where
  "logNotification e s l =
     (case logNotification_try e s l of
        (Inl err, s') \<Rightarrow> (Inr (), s')
      | (Inr u, s') \<Rightarrow> (Inr u, s'))"

text \<open>
  The two entries \<^verbatim>\<open>sendNotification\<close> builds: \<^verbatim>\<open>notificationLog\<close> in its \<^verbatim>\<open>try\<close>
  block, with the token, and \<^verbatim>\<open>failedLog\<close> in its \<^verbatim>\<open>catch\<close> block, without.
\<close>

definition notificationLog ::
  "env \<Rightarrow> string option \<Rightarrow> string \<Rightarrow> NotificationType \<Rightarrow> NotificationPayload \<Rightarrow> FCMTokenData
     \<Rightarrow> NotificationLog" where
  "notificationLog e userId complaintId ty payload tokenData =
     \<lparr> l_userId = userId, l_complaintId = complaintId, l_type = type_str ty,
       l_title = p_title payload, l_body = p_body payload, l_sentAt = clock_now e,
       l_status = ''sent'', l_fcmToken = Some (t_token tokenData), l_messageId = None,
       l_sentBy = None, l_error = None \<rparr>"

definition failedLog ::
  "env \<Rightarrow> string option \<Rightarrow> string \<Rightarrow> NotificationType \<Rightarrow> NotificationPayload
     \<Rightarrow> NotificationLog" where
  "failedLog e userId complaintId ty payload =
     \<lparr> l_userId = userId, l_complaintId = complaintId, l_type = type_str ty,
       l_title = p_title payload, l_body = p_body payload, l_sentAt = clock_now e,
       l_status = ''failed'', l_fcmToken = None, l_messageId = None,
       l_sentBy = None, l_error = None \<rparr>"

text \<open>
  The \<^verbatim>\<open>try\<close> block of \<^verbatim>\<open>sendNotification\<close>. The user id is the caller's
  \<^verbatim>\<open>complaint.userId\<close>, which a document may lack. Nothing is handed to a messaging
  service here: the entry with status \<^verbatim>\<open>'sent'\<close> is all the "send" there is.
\<close>

definition sendNotification_try ::
  "env \<Rightarrow> store \<Rightarrow> string option \<Rightarrow> string \<Rightarrow> NotificationType \<Rightarrow> NotificationPayload
     \<Rightarrow> (error + bool) \<times> store" where
  "sendNotification_try e s userId complaintId ty payload =
     (case token_get e of
        Some msg \<Rightarrow> (Inl (Error msg), s)
      | None \<Rightarrow>
         (case fcmTokens s (tmpl userId @ ''_web'') of
            None \<Rightarrow> (Inr False, s)
          | Some tokenData \<Rightarrow>
              if \<not> t_isActive tokenData then (Inr False, s)
              else (case logNotification e s
                           (notificationLog e userId complaintId ty payload tokenData) of
                      (Inl err, s') \<Rightarrow> (Inl err, s')
                    | (Inr u, s') \<Rightarrow> (Inr True, s'))))"

text \<open>\<^verbatim>\<open>sendNotification\<close>: the \<^verbatim>\<open>catch\<close> block logs a failed entry and returns false.\<close>

definition sendNotification ::
  "env \<Rightarrow> store \<Rightarrow> string option \<Rightarrow> string \<Rightarrow> NotificationType \<Rightarrow> NotificationPayload
     \<Rightarrow> (error + bool) \<times> store" where
  "sendNotification e s userId complaintId ty payload =
     (case sendNotification_try e s userId complaintId ty payload of
        (Inl err, s') \<Rightarrow>
          (case logNotification e s' (failedLog e userId complaintId ty payload) of
             (Inl err', s'') \<Rightarrow> (Inl err', s'')
           | (Inr u, s'') \<Rightarrow> (Inr False, s''))
      | (Inr b, s') \<Rightarrow> (Inr b, s'))"

section \<open>NotificationService (the orchestrator's direct dispatch)\<close>

text \<open>
  Modelled from the spec: \<^verbatim>\<open>fetchUserComplaintById\<close> of \<^verbatim>\<open>userComplaintsService\<close>,
  which is imported by \<^verbatim>\<open>notificationService.ts\<close> and is not among the sources. It
  reads the complaint with the given identifier from the \<^verbatim>\<open>complaints\<close> collection and
  gives \<^verbatim>\<open>null\<close> when the complaint does not exist; like every read it may reject.
\<close>

definition fetchUserComplaintById :: "env \<Rightarrow> store \<Rightarrow> string \<Rightarrow> error + complaint option" where
  "fetchUserComplaintById e s complaintId =
     (case complaint_fetch e of
        Some msg \<Rightarrow> Inl (Error msg)
      | None \<Rightarrow> Inr (complaints s complaintId))"

record NotificationTrigger =
  tr_complaintId :: string
  tr_userId :: "string option"
  tr_previousStatus :: "string option"
  tr_newStatus :: ComplaintStatus
  tr_updatedBy :: string
  tr_notes :: "string option"

text \<open>The \<^verbatim>\<open>switch\<close> of \<^verbatim>\<open>triggerNotification\<close>; \<open>None\<close> is its \<^verbatim>\<open>default: return\<close>.\<close>

fun notificationType_of :: "ComplaintStatus \<Rightarrow> NotificationType option" where
  "notificationType_of Submitted = Some Confirmation"
| "notificationType_of InProgress = Some Acknowledgment"
| "notificationType_of Resolved = Some Resolution"
| "notificationType_of Closed = None"

definition triggerNotification_try ::
  "env \<Rightarrow> store \<Rightarrow> NotificationTrigger \<Rightarrow> (error + unit) \<times> store" where
  "triggerNotification_try e s trigger =
     (case fetchUserComplaintById e s (tr_complaintId trigger) of
        Inl err \<Rightarrow> (Inl err, s)
      | Inr None \<Rightarrow> (Inr (), s)
      | Inr (Some cmp) \<Rightarrow>
         (case notificationType_of (tr_newStatus trigger) of
            None \<Rightarrow> (Inr (), s)
          | Some notificationType \<Rightarrow>
             (case sendNotification e s (tr_userId trigger) (tr_complaintId trigger)
                     notificationType (generateNotificationContent notificationType cmp) of
                (Inl err, s') \<Rightarrow> (Inl err, s')
              | (Inr b, s') \<Rightarrow> (Inr (), s'))))"

text \<open>\<^verbatim>\<open>triggerNotification\<close>: the \<^verbatim>\<open>catch\<close> block prints the error and does not rethrow.\<close>

definition triggerNotification ::
  "env \<Rightarrow> store \<Rightarrow> NotificationTrigger \<Rightarrow> (error + unit) \<times> store" where
  "triggerNotification e s trigger =
     (case triggerNotification_try e s trigger of
        (Inl err, s') \<Rightarrow> (Inr (), s')
      | (Inr u, s') \<Rightarrow> (Inr u, s'))"

record options =
  o_assignedTo :: "string option"
  o_department :: "string option"
  o_notes :: "string option"

text \<open>
  The status update \<^verbatim>\<open>updateStatusAndNotify\<close> passes to \<^verbatim>\<open>updateComplaintStatus\<close>;
  \<^verbatim>\<open>Timestamp.now()\<close> is the clock of the environment.
\<close>

definition orchestrator_update :: "env \<Rightarrow> ComplaintStatus \<Rightarrow> string \<Rightarrow> options \<Rightarrow> StatusUpdateData" where
  "orchestrator_update e newStatus updatedBy opts =
     \<lparr> sd_status = newStatus, sd_updatedBy = updatedBy, sd_updatedAt = clock_now e,
       sd_notes = o_notes opts, sd_assignedTo = o_assignedTo opts,
       sd_department = o_department opts, sd_resolvedImageUrl = None,
       sd_resolvedBy = None, sd_resolvedAt = None \<rparr>"

text \<open>
  \<^verbatim>\<open>updateStatusAndNotify\<close>. Its \<^verbatim>\<open>catch\<close> block rethrows the error it caught, so the
  function is its \<^verbatim>\<open>try\<close> block.
\<close>

definition updateStatusAndNotify ::
  "env \<Rightarrow> store \<Rightarrow> string \<Rightarrow> ComplaintStatus \<Rightarrow> string \<Rightarrow> options \<Rightarrow> (error + unit) \<times> store" where
  "updateStatusAndNotify e s complaintId newStatus updatedBy opts =
     (case fetchUserComplaintById e s complaintId of
        Inl err \<Rightarrow> (Inl err, s)
      | Inr None \<Rightarrow> (Inl (Error (''Complaint '' @ complaintId @ '' not found'')), s)
      | Inr (Some cmp) \<Rightarrow>
         (let previousStatus = or_default (c_status cmp) ''submitted''
          in case updateComplaintStatus e s complaintId
                    (orchestrator_update e newStatus updatedBy opts) of
               (Inl err, s') \<Rightarrow> (Inl err, s')
             | (Inr u, s') \<Rightarrow>
                 triggerNotification e s'
                   \<lparr> tr_complaintId = complaintId, tr_userId = c_userId cmp,
                     tr_previousStatus = Some previousStatus, tr_newStatus = newStatus,
                     tr_updatedBy = updatedBy, tr_notes = o_notes opts \<rparr>))"

section \<open>Cloud Functions (functions/index.js)\<close>

record content =
  ct_title :: string
  ct_body :: string
  ct_icon :: string
  ct_action :: string

text \<open>The Cloud Functions' own \<^verbatim>\<open>generateNotificationContent\<close>, on the type as a string.\<close>

definition fn_generateNotificationContent :: "string \<Rightarrow> complaint \<Rightarrow> content" where
  "fn_generateNotificationContent ty cd =
     (if ty = ''confirmation'' then
        \<lparr> ct_title = title_confirmation,
          ct_body = ''Your '' @ tmpl (c_category cd) @ '' complaint (#''
                    @ tmpl (c_complaintId cd) @ '') has been received and is being processed.'',
          ct_icon = ''/icons/confirmation.png'', ct_action = ''view_complaint'' \<rparr>
      else if ty = ''acknowledgment'' then
        \<lparr> ct_title = title_acknowledgment,
          ct_body = ''Your '' @ tmpl (c_category cd) @ '' complaint (#''
                    @ tmpl (c_complaintId cd) @ '') has been assigned and is now in progress.'',
          ct_icon = ''/icons/in-progress.png'', ct_action = ''view_progress'' \<rparr>
      else if ty = ''resolution'' then
        \<lparr> ct_title = title_resolution,
          ct_body = ''Great news! Your '' @ tmpl (c_category cd) @ '' complaint (#''
                    @ tmpl (c_complaintId cd) @ '') has been resolved.'',
          ct_icon = ''/icons/resolved.png'', ct_action = ''view_resolution'' \<rparr>
      else
        \<lparr> ct_title = ''Complaint Update'',
          ct_body = ''Your complaint (#'' @ tmpl (c_complaintId cd) @ '') has been updated.'',
          ct_icon = ''/icons/notification.png'', ct_action = ''view_complaint'' \<rparr>)"

text \<open>
  The write the trigger reacts to: the document before and after, each \<open>None\<close> when it
  does not exist.
\<close>

record change =
  ch_before :: "complaint option"
  ch_after :: "complaint option"

text \<open>
  The choice of \<^verbatim>\<open>notificationType\<close> in \<^verbatim>\<open>onComplaintStatusChange\<close>, for the new
  document \<open>newData\<close>: a write with no document before it is a confirmation whatever
  the new status; otherwise the status must differ from the old one and be
  \<^verbatim>\<open>'in-progress'\<close> or \<^verbatim>\<open>'resolved'\<close>. \<open>None\<close> is \<^verbatim>\<open>null\<close>.
\<close>

definition notificationType_for :: "complaint option \<Rightarrow> complaint \<Rightarrow> string option" where
  "notificationType_for oldData newData =
     (case oldData of
        None \<Rightarrow> Some ''confirmation''
      | Some old \<Rightarrow>
          if c_status old \<noteq> c_status newData then
            (if c_status newData = Some ''in-progress'' then Some ''acknowledgment''
             else if c_status newData = Some ''resolved'' then Some ''resolution''
             else None)
          else None)"

text \<open>
  Lines 76 to 116 of the \<^verbatim>\<open>try\<close> block of \<^verbatim>\<open>onComplaintStatusChange\<close>: build the
  message for an active token, send it, log it, return the message id.
\<close>

definition trigger_send ::
  "env \<Rightarrow> store \<Rightarrow> complaint \<Rightarrow> string \<Rightarrow> string \<Rightarrow> FCMTokenData
     \<Rightarrow> (error + string option) \<times> store" where
  "trigger_send e s newData complaintId notificationType tokenData =
     (let nc = fn_generateNotificationContent notificationType newData
      in case app_url e of
           None \<Rightarrow> (Inl (TypeError ''Cannot read properties of undefined (reading url)''), s)
         | Some url \<Rightarrow>
            (let msg = \<lparr> m_token = t_token tokenData,
                         m_title = ct_title nc, m_body = ct_body nc,
                         m_icon = ct_icon nc, m_complaintId = complaintId,
                         m_type = notificationType, m_action = ct_action nc,
                         m_clickAction = Some (url @ ''/complaints/'' @ complaintId),
                         m_link = Some (url @ ''/complaints/'' @ complaintId) \<rparr>
             in case send e of
                  Inl err \<Rightarrow> (Inl (Error err), s)
                | Inr response \<Rightarrow>
                   (let s1 = s\<lparr> outbox := outbox s @ [msg] \<rparr>
                    in case log_add e of
                         Some err \<Rightarrow> (Inl (Error err), s1)
                       | None \<Rightarrow>
                          (Inr (Some response),
                           s1\<lparr> notificationLogs := notificationLogs s1 @
                               [\<lparr> l_userId = c_userId newData,
                                  l_complaintId = complaintId,
                                  l_type = notificationType,
                                  l_title = ct_title nc,
                                  l_body = ct_body nc,
                                  l_sentAt = clock_now e,
                                  l_status = ''sent'',
                                  l_fcmToken = Some (t_token tokenData),
                                  l_messageId = Some response,
                                  l_sentBy = None,
                                  l_error = None \<rparr>] \<rparr>))))"

text \<open>The \<^verbatim>\<open>try\<close> block of \<^verbatim>\<open>onComplaintStatusChange\<close>; \<open>Inr None\<close> is \<^verbatim>\<open>return null\<close>.\<close>

definition onComplaintStatusChange_try ::
  "env \<Rightarrow> store \<Rightarrow> change \<Rightarrow> string \<Rightarrow> (error + string option) \<times> store" where
  "onComplaintStatusChange_try e s ch complaintId =
     (case ch_after ch of
        None \<Rightarrow> (Inr None, s)
      | Some newData \<Rightarrow>
          if \<not> truthy (c_userId newData) then (Inr None, s)
          else
           (case notificationType_for (ch_before ch) newData of
              None \<Rightarrow> (Inr None, s)
            | Some notificationType \<Rightarrow>
               (case token_get e of
                  Some msg \<Rightarrow> (Inl (Error msg), s)
                | None \<Rightarrow>
                   (case fcmTokens s (tmpl (c_userId newData) @ ''_web'') of
                      None \<Rightarrow> (Inr None, s)
                    | Some tokenData \<Rightarrow>
                        if \<not> t_isActive tokenData then (Inr None, s)
                        else trigger_send e s newData complaintId notificationType
                               tokenData))))"

text \<open>
  \<^verbatim>\<open>onComplaintStatusChange\<close>. \<^verbatim>\<open>newData\<close> is declared by \<^verbatim>\<open>const\<close> inside the
  \<^verbatim>\<open>try\<close> block, so it is out of scope in the \<^verbatim>\<open>catch\<close> block, and no other
  \<^verbatim>\<open>newData\<close> is declared in the file: the test \<^verbatim>\<open>newData?.userId\<close> that guards
  the failed entry throws a \<^verbatim>\<open>ReferenceError\<close> before anything is logged.
\<close>

definition onComplaintStatusChange ::
  "env \<Rightarrow> store \<Rightarrow> change \<Rightarrow> string \<Rightarrow> (error + string option) \<times> store" where
  "onComplaintStatusChange e s ch complaintId =
     (case onComplaintStatusChange_try e s ch complaintId of
        (Inl err, s') \<Rightarrow> (Inl (ReferenceError ''newData is not defined''), s')
      | (Inr r, s') \<Rightarrow> (Inr r, s'))"

text \<open>The request of the callable endpoint; every field may be missing.\<close>

record request =
  d_userId :: "string option"
  d_complaintId :: "string option"
  d_title :: "string option"
  d_body :: "string option"
  d_type :: "string option"

text \<open>
  The \<^verbatim>\<open>try\<close> block of \<^verbatim>\<open>sendCustomNotification\<close>, entered only when the four
  required fields are truthy, so that \<open>the\<close> is applied to \<open>Some\<close> values only. \<open>uid\<close>
  is \<^verbatim>\<open>context.auth.uid\<close>. The result is \<^verbatim>\<open>{success, messageId}\<close>.
\<close>

definition sendCustomNotification_try ::
  "env \<Rightarrow> store \<Rightarrow> string \<Rightarrow> request \<Rightarrow> (error + bool \<times> string) \<times> store" where
  "sendCustomNotification_try e s uid d =
     (case token_get e of
        Some msg \<Rightarrow> (Inl (Error msg), s)
      | None \<Rightarrow>
         (case fcmTokens s (tmpl (d_userId d) @ ''_web'') of
            None \<Rightarrow> (Inl (HttpsError ''not-found'' ''FCM token not found for user''), s)
          | Some tokenData \<Rightarrow>
              if \<not> t_isActive tokenData
              then (Inl (HttpsError ''failed-precondition'' ''FCM token is inactive''), s)
              else
               (let msg = \<lparr> m_token = t_token tokenData,
                            m_title = the (d_title d), m_body = the (d_body d),
                            m_icon = ''/icons/notification.png'',
                            m_complaintId = the (d_complaintId d),
                            m_type = or_default (d_type d) ''custom'',
                            m_action = ''view_complaint'',
                            m_clickAction = None, m_link = None \<rparr>
                in case send e of
                     Inl err \<Rightarrow> (Inl (Error err), s)
                   | Inr response \<Rightarrow>
                      (let s1 = s\<lparr> outbox := outbox s @ [msg] \<rparr>
                       in case log_add e of
                            Some err \<Rightarrow> (Inl (Error err), s1)
                          | None \<Rightarrow>
                             (Inr (True, response),
                              s1\<lparr> notificationLogs := notificationLogs s1 @
                                  [\<lparr> l_userId = d_userId d,
                                     l_complaintId = the (d_complaintId d),
                                     l_type = or_default (d_type d) ''custom'',
                                     l_title = the (d_title d),
                                     l_body = the (d_body d),
                                     l_sentAt = clock_now e,
                                     l_status = ''sent'',
                                     l_fcmToken = Some (t_token tokenData),
                                     l_messageId = Some response,
                                     l_sentBy = Some uid,
                                     l_error = None \<rparr>] \<rparr>)))))"

text \<open>
  \<^verbatim>\<open>sendCustomNotification\<close>. \<open>auth\<close> is \<^verbatim>\<open>context.auth\<close>, given by its \<^verbatim>\<open>uid\<close>.
  The two checks before the \<^verbatim>\<open>try\<close> block throw to the caller directly; whatever is
  thrown inside the block, the two \<^verbatim>\<open>HttpsError\<close>s for the token included, is caught
  and thrown again as an \<^verbatim>\<open>HttpsError\<close> of kind \<^verbatim>\<open>'internal'\<close> with the same message.
\<close>

definition sendCustomNotification ::
  "env \<Rightarrow> store \<Rightarrow> string option \<Rightarrow> request \<Rightarrow> (error + bool \<times> string) \<times> store" where
  "sendCustomNotification e s auth d =
     (case auth of
        None \<Rightarrow> (Inl (HttpsError ''unauthenticated'' ''User must be authenticated''), s)
      | Some uid \<Rightarrow>
          if \<not> truthy (d_userId d) \<or> \<not> truthy (d_complaintId d)
             \<or> \<not> truthy (d_title d) \<or> \<not> truthy (d_body d)
          then (Inl (HttpsError ''invalid-argument'' ''Missing required fields''), s)
          else
           (case sendCustomNotification_try e s uid d of
              (Inl err, s') \<Rightarrow> (Inl (HttpsError ''internal'' (error_message err)), s')
            | (Inr r, s') \<Rightarrow> (Inr r, s')))"

section \<open>Vocabulary of the properties\<close>

text \<open>
  The device token record of a user is absent or marked inactive. Both services look it
  up under the key \<^verbatim>\<open>${userId}_web\<close>.
\<close>

definition no_active_token :: "store \<Rightarrow> string option \<Rightarrow> bool" where
  "no_active_token s userId =
     (case fcmTokens s (tmpl userId @ ''_web'') of
        None \<Rightarrow> True
      | Some tokenData \<Rightarrow> \<not> t_isActive tokenData)"

text \<open>Appending an entry to the notification log of a store.\<close>

definition logged :: "store \<Rightarrow> NotificationLog \<Rightarrow> store" where
  "logged s l = s\<lparr> notificationLogs := notificationLogs s @ [l] \<rparr>"

section \<open>Sample data\<close>

text \<open>
  One complaint of user \<^verbatim>\<open>u1\<close>, created at time 0, with an active device token, in a
  store with nothing else; and an environment in which no call fails.
\<close>

definition ex_complaint :: complaint where
  "ex_complaint =
     \<lparr> c_complaintId = Some ''ISS-0001'', c_userId = Some ''u1'',
       c_category = Some ''Pothole'', c_status = Some ''submitted'', c_priority = None,
       c_createdAt = Some 0, c_updatedAt = None, c_updatedBy = None, c_assignedTo = None,
       c_department = None, c_lastUpdateNotes = None, c_resolvedImageBase64 = None,
       c_resolvedBy = None, c_resolvedAt = None \<rparr>"

definition ex_token :: FCMTokenData where
  "ex_token =
     \<lparr> t_userId = ''u1'', t_token = ''tok-1'', t_deviceType = ''web'', t_createdAt = 0,
       t_updatedAt = 0, t_isActive = True \<rparr>"

definition ex_store :: store where
  "ex_store =
     \<lparr> complaints = [''ISS-0001'' \<mapsto> ex_complaint], statusHistory = [],
       fcmTokens = [''u1_web'' \<mapsto> ex_token], notificationLogs = [], outbox = [] \<rparr>"

definition ex_env :: env where
  "ex_env =
     \<lparr> clock_now = 1000, complaint_fetch = None, complaint_get = None, complaint_update = None,
       history_add = None, token_get = None, log_add = None, send = Inr ''msg-1'',
       app_url = Some ''https://portal.example'' \<rparr>"

definition ex_update :: StatusUpdateData where
  "ex_update =
     \<lparr> sd_status = Resolved, sd_updatedBy = ''admin'', sd_updatedAt = 1000,
       sd_notes = Some ''fixed'', sd_assignedTo = None, sd_department = None,
       sd_resolvedImageUrl = Some ''data:image/png;base64,AAAA'', sd_resolvedBy = None,
       sd_resolvedAt = None \<rparr>"

definition ex_options :: options where
  "ex_options = \<lparr> o_assignedTo = None, o_department = None, o_notes = None \<rparr>"

definition ex_request :: request where
  "ex_request =
     \<lparr> d_userId = Some ''u1'', d_complaintId = Some ''ISS-0001'', d_title = Some ''Hello'',
       d_body = Some ''World'', d_type = None \<rparr>"

section \<open>SLA monitor: properties\<close>

lemma isSLABreached_ignores_status:
  "isSLABreached t_now (c\<lparr> c_status := st \<rparr>) = isSLABreached t_now c"
  by (simp add: isSLABreached_def)

lemma dashboard_isSLABreached_resolved:
  "dashboard_isSLABreached t_now (c\<lparr> c_status := Some ''resolved'' \<rparr>) = False"
  by (simp add: dashboard_isSLABreached_def)

text \<open>
  Claim C1. A complaint whose status is \<^verbatim>\<open>'resolved'\<close> should never be reported as
  breached. \<^verbatim>\<open>SLANotificationService.isSLABreached\<close> does not look at the status: for
  the sample complaint, created at time 0 and resolved, it answers true 49 seconds
  later, where the function of the same name in \<^verbatim>\<open>DashboardStatsService\<close> answers false.
\<close>

theorem isSLABreached_resolved_still_breached:
  "isSLABreached 49000 (ex_complaint\<lparr> c_status := Some ''resolved'' \<rparr>) = True
   \<and> dashboard_isSLABreached 49000 (ex_complaint\<lparr> c_status := Some ''resolved'' \<rparr>) = False"
  by (simp add: isSLABreached_def dashboard_isSLABreached_def ex_complaint_def
      secondsSinceCreated_def SLA_SECONDS_def)

text \<open>
  Claim C6. For a complaint created at time \<open>t\<close>, at any two successive readings of the
  clock \<^verbatim>\<open>getSecondsUntilDeadline\<close> returns numbers, the later one no larger than the
  earlier one and strictly smaller while the earlier reading is before the threshold;
  the result is never negative, and it is exactly 0 from the moment 48 seconds have
  elapsed.
\<close>

theorem getSecondsUntilDeadline_decreases_to_zero:
  assumes "c_createdAt c = Some t" and "now1 \<le> now2"
  shows "\<exists>r1 r2. getSecondsUntilDeadline now1 c = Some r1
           \<and> getSecondsUntilDeadline now2 c = Some r2
           \<and> r2 \<le> r1 \<and> 0 \<le> r2
           \<and> (now1 < now2 \<and> now1 - t < 48000 \<longrightarrow> r2 < r1)
           \<and> (r2 = 0 \<longleftrightarrow> 48000 \<le> now2 - t)"
proof -
  let ?d1 = "of_int (now1 - t) / 1000 :: rat"
  let ?d2 = "of_int (now2 - t) / 1000 :: rat"
  have le: "?d1 \<le> ?d2" using assms(2) by (simp add: divide_right_mono)
  have lt: "now1 < now2 \<Longrightarrow> ?d1 < ?d2" by (simp add: divide_strict_right_mono)
  have th: "48 \<le> ?d2 \<longleftrightarrow> 48000 \<le> now2 - t"
  proof -
    have "48 \<le> ?d2 \<longleftrightarrow> (48000::rat) \<le> of_int (now2 - t)" by (simp add: le_divide_eq)
    also have "\<dots> \<longleftrightarrow> (of_int 48000 :: rat) \<le> of_int (now2 - t)" by simp
    also have "\<dots> \<longleftrightarrow> 48000 \<le> now2 - t" by (simp only: of_int_le_iff)
    finally show ?thesis .
  qed
  have th1: "?d1 < 48 \<longleftrightarrow> now1 - t < 48000"
  proof -
    have "?d1 < 48 \<longleftrightarrow> of_int (now1 - t) < (48000::rat)" by (simp add: divide_less_eq)
    also have "\<dots> \<longleftrightarrow> of_int (now1 - t) < (of_int 48000 :: rat)" by simp
    also have "\<dots> \<longleftrightarrow> now1 - t < 48000" by (simp only: of_int_less_iff)
    finally show ?thesis .
  qed
  show ?thesis
    using assms(1) le lt th th1
    unfolding getSecondsUntilDeadline_def secondsSinceCreated_def SLA_SECONDS_def
    by (auto simp: max_def)
qed

theorem getSecondsUntilDeadline_decreases_to_zero_witness:
  "c_createdAt ex_complaint = Some 0 \<and> (1000::int) \<le> 48000
   \<and> getSecondsUntilDeadline 1000 ex_complaint = Some 47
   \<and> getSecondsUntilDeadline 48000 ex_complaint = Some 0"
  using getSecondsUntilDeadline_decreases_to_zero [of ex_complaint 0 1000 48000]
  by (simp add: ex_complaint_def getSecondsUntilDeadline_def secondsSinceCreated_def
      SLA_SECONDS_def)

section \<open>Status updates: properties\<close>

lemma addStatusHistory_never_throws: "fst (addStatusHistory e s h) = Inr ()"
  by (simp add: addStatusHistory_def addStatusHistory_try_def split: option.splits)

lemma addStatusHistory_complaints: "complaints (snd (addStatusHistory e s h)) = complaints s"
  by (simp add: addStatusHistory_def addStatusHistory_try_def split: option.splits)

lemma addStatusHistory_fails:
  "history_add e = Some msg \<Longrightarrow> addStatusHistory e s h = (Inr (), s)"
  by (simp add: addStatusHistory_def addStatusHistory_try_def)

text \<open>
  Claim C4. Updating the status of a complaint identifier that is not in the
  \<^verbatim>\<open>complaints\<close> collection fails and leaves the whole store as it was (no document
  written, no history entry, no notification sent or logged), through the orchestrator
  and through the status service alike. When the read itself does not fail, the error
  is the not-found error: \<^verbatim>\<open>Complaint <id> not found\<close>, which the status service
  wraps in its own prefix.
\<close>

theorem update_missing_complaint_fails_unchanged:
  assumes "complaints s cid = None"
  shows "(\<exists>err. updateStatusAndNotify e s cid st who opts = (Inl err, s))
       \<and> (\<exists>err. updateComplaintStatus e s cid sd = (Inl err, s))
       \<and> (complaint_fetch e = None \<longrightarrow>
            updateStatusAndNotify e s cid st who opts
              = (Inl (Error (''Complaint '' @ cid @ '' not found'')), s))
       \<and> (complaint_get e = None \<longrightarrow>
            updateComplaintStatus e s cid sd
              = (Inl (Error (''Failed to update complaint status: Complaint '' @ cid
                             @ '' not found'')), s))"
  using assms
  by (simp add: updateStatusAndNotify_def fetchUserComplaintById_def
      updateComplaintStatus_def updateComplaintStatus_try_def split: option.splits)

theorem update_missing_complaint_fails_unchanged_witness:
  "complaints ex_store ''ISS-0000'' = None
   \<and> updateStatusAndNotify ex_env ex_store ''ISS-0000'' InProgress ''admin'' ex_options
       = (Inl (Error ''Complaint ISS-0000 not found''), ex_store)
   \<and> updateComplaintStatus ex_env ex_store ''ISS-0000'' ex_update
       = (Inl (Error ''Failed to update complaint status: Complaint ISS-0000 not found''),
          ex_store)"
  using update_missing_complaint_fails_unchanged
          [of ex_store "''ISS-0000''" ex_env InProgress "''admin''" ex_options ex_update]
  by (simp add: ex_store_def ex_env_def)

text \<open>
  Claim C5. On an existing complaint, a status update with status \<^verbatim>\<open>'resolved'\<close>,
  notes \<^verbatim>\<open>'fixed'\<close> and image payload \<open>img\<close>, whose read and write of the complaint
  succeed, returns normally, and the complaint read back afterwards has status
  \<^verbatim>\<open>'resolved'\<close>, the notes \<^verbatim>\<open>'fixed'\<close> (field \<^verbatim>\<open>lastUpdateNotes\<close>) and the
  image \<open>img\<close> (field \<^verbatim>\<open>resolvedImageBase64\<close>).
\<close>

theorem resolved_update_round_trip:
  assumes "complaints s cid = Some cur"
    and "complaint_get e = None" and "complaint_update e = None"
    and "sd_status sd = Resolved" and "sd_notes sd = Some ''fixed''"
    and "sd_resolvedImageUrl sd = img"
  shows "fst (updateComplaintStatus e s cid sd) = Inr ()
       \<and> (\<exists>c'. complaints (snd (updateComplaintStatus e s cid sd)) cid = Some c'
              \<and> c_status c' = Some ''resolved''
              \<and> c_lastUpdateNotes c' = Some ''fixed''
              \<and> c_resolvedImageBase64 c' = img)"
proof -
  let ?s1 = "s\<lparr> complaints := (complaints s)(cid \<mapsto> updateFields sd cur) \<rparr>"
  let ?h = "\<lparr> h_complaintId = cid,
              h_previousStatus = or_default (c_status cur) ''submitted'',
              h_newStatus = sd_status sd, h_updatedBy = sd_updatedBy sd,
              h_updatedAt = sd_updatedAt sd, h_notes = sd_notes sd \<rparr>"
  have t: "updateComplaintStatus_try e s cid sd = addStatusHistory e ?s1 ?h"
    using assms(1-3) by (simp add: updateComplaintStatus_try_def)
  have r: "updateComplaintStatus e s cid sd = (Inr (), snd (addStatusHistory e ?s1 ?h))"
    using addStatusHistory_never_throws [of e ?s1 ?h]
    by (cases "addStatusHistory e ?s1 ?h") (simp add: updateComplaintStatus_def t)
  have c: "complaints (snd (updateComplaintStatus e s cid sd)) cid = Some (updateFields sd cur)"
    by (simp add: r addStatusHistory_complaints)
  have f: "c_status (updateFields sd cur) = Some ''resolved''"
          "c_lastUpdateNotes (updateFields sd cur) = Some ''fixed''"
          "c_resolvedImageBase64 (updateFields sd cur) = img"
    using assms(4-6) by (simp_all add: updateFields_def)
  show ?thesis using r c f by simp
qed

theorem resolved_update_round_trip_witness:
  "complaints ex_store ''ISS-0001'' = Some ex_complaint
   \<and> complaint_get ex_env = None \<and> complaint_update ex_env = None
   \<and> sd_status ex_update = Resolved \<and> sd_notes ex_update = Some ''fixed''
   \<and> fst (updateComplaintStatus ex_env ex_store ''ISS-0001'' ex_update) = Inr ()
   \<and> map_option c_status
        (complaints (snd (updateComplaintStatus ex_env ex_store ''ISS-0001'' ex_update))
           ''ISS-0001'') = Some (Some ''resolved'')
   \<and> map_option c_lastUpdateNotes
        (complaints (snd (updateComplaintStatus ex_env ex_store ''ISS-0001'' ex_update))
           ''ISS-0001'') = Some (Some ''fixed'')
   \<and> map_option c_resolvedImageBase64
        (complaints (snd (updateComplaintStatus ex_env ex_store ''ISS-0001'' ex_update))
           ''ISS-0001'') = Some (Some ''data:image/png;base64,AAAA'')"
  using resolved_update_round_trip
          [of ex_store "''ISS-0001''" ex_complaint ex_env ex_update
              "Some ''data:image/png;base64,AAAA''"]
  by (auto simp add: ex_store_def ex_env_def ex_update_def)

text \<open>
  Claim C8. On an existing complaint, when the read and the write of the complaint
  document succeed and the append to the status history fails, \<^verbatim>\<open>updateComplaintStatus\<close>
  returns normally: the store afterwards differs only in the complaint, which carries
  the new status, and the status history is what it was.
\<close>

theorem history_failure_is_swallowed:
  assumes "complaints s cid = Some cur"
    and "complaint_get e = None" and "complaint_update e = None"
    and "history_add e = Some msg"
  shows "updateComplaintStatus e s cid sd
           = (Inr (), s\<lparr> complaints := (complaints s)(cid \<mapsto> updateFields sd cur) \<rparr>)
       \<and> c_status (updateFields sd cur) = Some (status_str (sd_status sd))
       \<and> statusHistory (snd (updateComplaintStatus e s cid sd)) = statusHistory s"
  using assms
  by (simp add: updateComplaintStatus_def updateComplaintStatus_try_def
      addStatusHistory_fails updateFields_def Let_def)

theorem history_failure_is_swallowed_witness:
  "complaints ex_store ''ISS-0001'' = Some ex_complaint
   \<and> history_add (ex_env\<lparr> history_add := Some ''unavailable'' \<rparr>) = Some ''unavailable''
   \<and> fst (updateComplaintStatus (ex_env\<lparr> history_add := Some ''unavailable'' \<rparr>) ex_store
            ''ISS-0001'' ex_update) = Inr ()
   \<and> statusHistory (snd (updateComplaintStatus (ex_env\<lparr> history_add := Some ''unavailable'' \<rparr>)
        ex_store ''ISS-0001'' ex_update)) = []"
  using history_failure_is_swallowed
          [of ex_store "''ISS-0001''" ex_complaint "ex_env\<lparr> history_add := Some ''unavailable'' \<rparr>"
              "''unavailable''" ex_update]
  by (simp add: ex_store_def ex_env_def)

section \<open>Browser-side dispatch: properties\<close>

lemma logNotification_eq:
  "logNotification e s l = (Inr (), if log_add e = None then logged s l else s)"
  by (simp add: logNotification_def logNotification_try_def logged_def split: option.splits)

lemma sendNotification_no_token:
  "token_get e = None \<Longrightarrow> no_active_token s userId \<Longrightarrow>
   sendNotification e s userId cid ty payload = (Inr False, s)"
  by (simp add: sendNotification_def sendNotification_try_def no_active_token_def
      split: option.splits)

lemma sendNotification_active:
  "token_get e = None \<Longrightarrow> fcmTokens s (tmpl userId @ ''_web'') = Some td \<Longrightarrow> t_isActive td \<Longrightarrow>
   sendNotification e s userId cid ty payload
     = (Inr True, if log_add e = None
                  then logged s (notificationLog e userId cid ty payload td) else s)"
  by (simp add: sendNotification_def sendNotification_try_def logNotification_eq)

lemma sendNotification_read_fails:
  "token_get e = Some msg \<Longrightarrow>
   sendNotification e s userId cid ty payload
     = (Inr False, if log_add e = None
                   then logged s (failedLog e userId cid ty payload) else s)"
  by (simp add: sendNotification_def sendNotification_try_def logNotification_eq)

lemma sendNotification_returns: "\<exists>b. fst (sendNotification e s userId cid ty payload) = Inr b"
  by (auto simp add: sendNotification_def sendNotification_try_def logNotification_eq
      split: option.splits)

text \<open>
  Claim C9, amended. \<^verbatim>\<open>fcmService.sendNotification\<close> never throws. When the token read
  succeeds and the token record is absent or inactive it returns false and leaves the
  store as it was. With an active token it returns true after trying to append an entry
  with status \<^verbatim>\<open>'sent'\<close>; when the token read throws it returns false after trying to
  append an entry with status \<^verbatim>\<open>'failed'\<close>. In both cases the entry is appended
  exactly when the write to the log succeeds: \<^verbatim>\<open>logNotification\<close> swallows a failed
  write, the result stays the same and the log is unchanged.
\<close>

theorem sendNotification_never_throws_best_effort_log:
  "(\<exists>b. fst (sendNotification e s userId cid ty payload) = Inr b)
   \<and> (token_get e = None \<and> no_active_token s userId \<longrightarrow>
        sendNotification e s userId cid ty payload = (Inr False, s))
   \<and> (\<forall>td. token_get e = None \<and> fcmTokens s (tmpl userId @ ''_web'') = Some td
             \<and> t_isActive td \<longrightarrow>
        sendNotification e s userId cid ty payload
          = (Inr True, if log_add e = None
                       then logged s (notificationLog e userId cid ty payload td) else s)
        \<and> l_status (notificationLog e userId cid ty payload td) = ''sent'')
   \<and> (token_get e \<noteq> None \<longrightarrow>
        sendNotification e s userId cid ty payload
          = (Inr False, if log_add e = None
                        then logged s (failedLog e userId cid ty payload) else s)
        \<and> l_status (failedLog e userId cid ty payload) = ''failed'')"
  using sendNotification_returns [of e s userId cid ty payload]
  by (auto simp add: sendNotification_no_token sendNotification_active
      sendNotification_read_fails notificationLog_def failedLog_def)

theorem sendNotification_never_throws_best_effort_log_witness:
  "token_get ex_env = None \<and> fcmTokens ex_store (tmpl (Some ''u1'') @ ''_web'') = Some ex_token
   \<and> t_isActive ex_token \<and> log_add ex_env = None
   \<and> fst (sendNotification ex_env ex_store (Some ''u1'') ''ISS-0001'' Resolution
            (generateNotificationContent Resolution ex_complaint)) = Inr True
   \<and> map l_status (notificationLogs (snd (sendNotification ex_env ex_store (Some ''u1'')
            ''ISS-0001'' Resolution (generateNotificationContent Resolution ex_complaint))))
       = [''sent'']"
  using sendNotification_never_throws_best_effort_log
          [of ex_env ex_store "Some ''u1''" "''ISS-0001''" Resolution
              "generateNotificationContent Resolution ex_complaint"]
  by (simp add: ex_env_def ex_store_def ex_token_def logged_def notificationLog_def)


text \<open>
  Without the proviso on the log write the statement fails: when the write to
  \<^verbatim>\<open>notificationLogs\<close> is rejected, \<^verbatim>\<open>sendNotification\<close> on the sample store returns
  true with an active token, and false when the token read is rejected too, and in
  both runs the log stays empty.
\<close>

theorem sendNotification_log_write_fails:
  "sendNotification (ex_env\<lparr> log_add := Some ''unavailable'' \<rparr>) ex_store (Some ''u1'')
       ''ISS-0001'' Resolution (generateNotificationContent Resolution ex_complaint)
     = (Inr True, ex_store)
   \<and> sendNotification (ex_env\<lparr> token_get := Some ''unavailable'', log_add := Some ''unavailable'' \<rparr>)
       ex_store (Some ''u1'') ''ISS-0001'' Resolution
       (generateNotificationContent Resolution ex_complaint)
     = (Inr False, ex_store)
   \<and> notificationLogs ex_store = []"
  by (simp add: sendNotification_def sendNotification_try_def logNotification_def
      logNotification_try_def ex_env_def ex_store_def ex_token_def)

section \<open>Dispatch without an active token\<close>

lemma addStatusHistory_other:
  "fcmTokens (snd (addStatusHistory e s h)) = fcmTokens s"
  "notificationLogs (snd (addStatusHistory e s h)) = notificationLogs s"
  "outbox (snd (addStatusHistory e s h)) = outbox s"
  by (simp_all add: addStatusHistory_def addStatusHistory_try_def split: option.splits)

lemma updateComplaintStatus_try_other:
  "fcmTokens (snd (updateComplaintStatus_try e s cid sd)) = fcmTokens s"
  "notificationLogs (snd (updateComplaintStatus_try e s cid sd)) = notificationLogs s"
  "outbox (snd (updateComplaintStatus_try e s cid sd)) = outbox s"
  by (simp_all add: updateComplaintStatus_try_def addStatusHistory_other Let_def
      split: option.splits)

lemma updateComplaintStatus_other:
  "fcmTokens (snd (updateComplaintStatus e s cid sd)) = fcmTokens s"
  "notificationLogs (snd (updateComplaintStatus e s cid sd)) = notificationLogs s"
  "outbox (snd (updateComplaintStatus e s cid sd)) = outbox s"
  using updateComplaintStatus_try_other [of e s cid sd]
  by (cases "updateComplaintStatus_try e s cid sd";
      cases "fst (updateComplaintStatus_try e s cid sd)";
      simp add: updateComplaintStatus_def)+

lemma triggerNotification_no_token:
  assumes "token_get e = None" and "no_active_token s (tr_userId trigger)"
  shows "triggerNotification e s trigger = (Inr (), s)"
  using assms
  by (simp add: triggerNotification_def triggerNotification_try_def
      sendNotification_no_token split: sum.splits option.splits)

lemma onComplaintStatusChange_no_token:
  assumes "token_get e = None" and "ch_after ch = Some newData"
    and "no_active_token s (c_userId newData)"
  shows "onComplaintStatusChange e s ch cid = (Inr None, s)"
  using assms
  by (simp add: onComplaintStatusChange_def onComplaintStatusChange_try_def
      no_active_token_def split: option.splits)

lemma updateStatusAndNotify_no_token:
  assumes "token_get e = None" and "complaint_fetch e = None"
    and "complaints s cid = Some cmp" and "no_active_token s (c_userId cmp)"
  shows "updateStatusAndNotify e s cid st who opts
           = updateComplaintStatus e s cid (orchestrator_update e st who opts)"
proof (cases "updateComplaintStatus e s cid (orchestrator_update e st who opts)")
  case (Pair r s')
  have tok: "fcmTokens s' = fcmTokens s"
    using updateComplaintStatus_other(1) [of e s cid "orchestrator_update e st who opts"] Pair
    by simp
  show ?thesis
  proof (cases r)
    case (Inl err)
    with Pair assms(2,3) show ?thesis
      by (simp add: updateStatusAndNotify_def fetchUserComplaintById_def)
  next
    case (Inr u)
    have "no_active_token s' (c_userId cmp)"
      using assms(4) tok by (simp add: no_active_token_def)
    then have "triggerNotification e s'
                 \<lparr> tr_complaintId = cid, tr_userId = c_userId cmp,
                   tr_previousStatus = Some (or_default (c_status cmp) ''submitted''),
                   tr_newStatus = st, tr_updatedBy = who, tr_notes = o_notes opts \<rparr>
               = (Inr (), s')"
      using assms(1) by (simp add: triggerNotification_no_token)
    with Pair Inr assms(2,3) show ?thesis
      by (simp add: updateStatusAndNotify_def fetchUserComplaintById_def)
  qed
qed

text \<open>
  Claim C7. When the device token record of the submitter is read and is absent or
  inactive, the dispatch does nothing and raises nothing. On the browser side
  \<^verbatim>\<open>sendNotification\<close> returns false and \<^verbatim>\<open>triggerNotification\<close> returns normally,
  both with the store unchanged, so that \<^verbatim>\<open>updateStatusAndNotify\<close> on a complaint of
  that submitter is exactly the status update: it fails only if the status update
  fails, and it sends and logs nothing. In the Cloud Function the trigger returns
  \<^verbatim>\<open>null\<close> with the store unchanged: nothing is handed to the messaging service.
\<close>

theorem dispatch_without_active_token_is_noop:
  assumes "token_get e = None" and "no_active_token s userId"
  shows "sendNotification e s userId cid ty payload = (Inr False, s)
       \<and> (tr_userId trigger = userId \<longrightarrow> triggerNotification e s trigger = (Inr (), s))
       \<and> (\<forall>cmp. complaint_fetch e = None \<and> complaints s cid = Some cmp
                  \<and> c_userId cmp = userId \<longrightarrow>
             updateStatusAndNotify e s cid st who opts
               = updateComplaintStatus e s cid (orchestrator_update e st who opts)
             \<and> outbox (snd (updateStatusAndNotify e s cid st who opts)) = outbox s
             \<and> notificationLogs (snd (updateStatusAndNotify e s cid st who opts))
                 = notificationLogs s)
       \<and> (\<forall>newData. ch_after ch = Some newData \<and> c_userId newData = userId \<longrightarrow>
             onComplaintStatusChange e s ch cid = (Inr None, s))"
  using assms
  by (auto simp add: sendNotification_no_token triggerNotification_no_token
      onComplaintStatusChange_no_token updateStatusAndNotify_no_token
      updateComplaintStatus_other)

theorem dispatch_without_active_token_is_noop_witness:
  "token_get ex_env = None \<and> no_active_token (ex_store\<lparr> fcmTokens := Map.empty \<rparr>) (Some ''u1'')
   \<and> sendNotification ex_env (ex_store\<lparr> fcmTokens := Map.empty \<rparr>) (Some ''u1'') ''ISS-0001''
        Acknowledgment (generateNotificationContent Acknowledgment ex_complaint)
       = (Inr False, ex_store\<lparr> fcmTokens := Map.empty \<rparr>)
   \<and> onComplaintStatusChange ex_env (ex_store\<lparr> fcmTokens := Map.empty \<rparr>)
        \<lparr> ch_before = None, ch_after = Some ex_complaint \<rparr> ''ISS-0001''
       = (Inr None, ex_store\<lparr> fcmTokens := Map.empty \<rparr>)
   \<and> fst (updateStatusAndNotify ex_env (ex_store\<lparr> fcmTokens := Map.empty \<rparr>) ''ISS-0001''
            InProgress ''admin'' ex_options) = Inr ()
   \<and> notificationLogs (snd (updateStatusAndNotify ex_env (ex_store\<lparr> fcmTokens := Map.empty \<rparr>)
        ''ISS-0001'' InProgress ''admin'' ex_options)) = []
   \<and> outbox (snd (updateStatusAndNotify ex_env (ex_store\<lparr> fcmTokens := Map.empty \<rparr>)
        ''ISS-0001'' InProgress ''admin'' ex_options)) = []"
proof -
  have h1: "token_get ex_env = None" by (simp add: ex_env_def)
  have h2: "no_active_token (ex_store\<lparr> fcmTokens := Map.empty \<rparr>) (Some ''u1'')"
    by (simp add: no_active_token_def)
  have c: "complaint_fetch ex_env = None
           \<and> complaints (ex_store\<lparr> fcmTokens := Map.empty \<rparr>) ''ISS-0001'' = Some ex_complaint
           \<and> c_userId ex_complaint = Some ''u1''"
    by (simp add: ex_env_def ex_store_def ex_complaint_def)
  have u: "fst (updateComplaintStatus ex_env (ex_store\<lparr> fcmTokens := Map.empty \<rparr>) ''ISS-0001''
                 (orchestrator_update ex_env InProgress ''admin'' ex_options)) = Inr ()"
    by (simp add: updateComplaintStatus_def updateComplaintStatus_try_def ex_env_def
        ex_store_def addStatusHistory_def addStatusHistory_try_def)
  have l: "notificationLogs (ex_store\<lparr> fcmTokens := Map.empty \<rparr>) = []
           \<and> outbox (ex_store\<lparr> fcmTokens := Map.empty \<rparr>) = []"
    by (simp add: ex_store_def)
  note th = dispatch_without_active_token_is_noop
            [OF h1 h2, of "''ISS-0001''" Acknowledgment
               "generateNotificationContent Acknowledgment ex_complaint"
               "\<lparr> tr_complaintId = ''ISS-0001'', tr_userId = Some ''u1'',
                  tr_previousStatus = None, tr_newStatus = InProgress,
                  tr_updatedBy = ''admin'', tr_notes = None \<rparr>"
               InProgress "''admin''" ex_options
               "\<lparr> ch_before = None, ch_after = Some ex_complaint \<rparr>"]
  have a: "sendNotification ex_env (ex_store\<lparr> fcmTokens := Map.empty \<rparr>) (Some ''u1'')
             ''ISS-0001'' Acknowledgment
             (generateNotificationContent Acknowledgment ex_complaint)
           = (Inr False, ex_store\<lparr> fcmTokens := Map.empty \<rparr>)"
    using th by blast
  have b: "onComplaintStatusChange ex_env (ex_store\<lparr> fcmTokens := Map.empty \<rparr>)
             \<lparr> ch_before = None, ch_after = Some ex_complaint \<rparr> ''ISS-0001''
           = (Inr None, ex_store\<lparr> fcmTokens := Map.empty \<rparr>)"
    using th c by simp
  have d: "updateStatusAndNotify ex_env (ex_store\<lparr> fcmTokens := Map.empty \<rparr>) ''ISS-0001''
             InProgress ''admin'' ex_options
           = updateComplaintStatus ex_env (ex_store\<lparr> fcmTokens := Map.empty \<rparr>) ''ISS-0001''
               (orchestrator_update ex_env InProgress ''admin'' ex_options)
         \<and> outbox (snd (updateStatusAndNotify ex_env (ex_store\<lparr> fcmTokens := Map.empty \<rparr>)
               ''ISS-0001'' InProgress ''admin'' ex_options))
             = outbox (ex_store\<lparr> fcmTokens := Map.empty \<rparr>)
         \<and> notificationLogs (snd (updateStatusAndNotify ex_env
               (ex_store\<lparr> fcmTokens := Map.empty \<rparr>) ''ISS-0001'' InProgress ''admin''
               ex_options))
             = notificationLogs (ex_store\<lparr> fcmTokens := Map.empty \<rparr>)"
    using th c by blast
  have f: "fst (updateStatusAndNotify ex_env (ex_store\<lparr> fcmTokens := Map.empty \<rparr>) ''ISS-0001''
                 InProgress ''admin'' ex_options) = Inr ()"
    using d u by simp
  have g: "outbox (snd (updateStatusAndNotify ex_env (ex_store\<lparr> fcmTokens := Map.empty \<rparr>)
               ''ISS-0001'' InProgress ''admin'' ex_options)) = []
         \<and> notificationLogs (snd (updateStatusAndNotify ex_env
               (ex_store\<lparr> fcmTokens := Map.empty \<rparr>) ''ISS-0001'' InProgress ''admin''
               ex_options)) = []"
    using d l by metis
  show ?thesis
    using h1 h2 a b f g by blast
qed

text \<open>
  Claim C10. When the document does not exist after the write (the complaint was
  deleted), or its \<^verbatim>\<open>userId\<close> is missing or empty, the trigger returns \<^verbatim>\<open>null\<close> and
  leaves the store as it was: no message is sent and no log entry is appended,
  whatever the environment.
\<close>

theorem deleted_or_ownerless_write_is_ignored:
  assumes "ch_after ch = None
           \<or> (\<exists>newData. ch_after ch = Some newData \<and> \<not> truthy (c_userId newData))"
  shows "onComplaintStatusChange e s ch cid = (Inr None, s)"
  using assms
  by (auto simp add: onComplaintStatusChange_def onComplaintStatusChange_try_def)

theorem deleted_or_ownerless_write_is_ignored_witness:
  "ch_after \<lparr> ch_before = Some ex_complaint, ch_after = None \<rparr> = None
   \<and> onComplaintStatusChange ex_env ex_store
        \<lparr> ch_before = Some ex_complaint, ch_after = None \<rparr> ''ISS-0001'' = (Inr None, ex_store)
   \<and> \<not> truthy (c_userId (ex_complaint\<lparr> c_userId := None \<rparr>))
   \<and> onComplaintStatusChange ex_env ex_store
        \<lparr> ch_before = None, ch_after = Some (ex_complaint\<lparr> c_userId := None \<rparr>) \<rparr> ''ISS-0001''
       = (Inr None, ex_store)"
  using deleted_or_ownerless_write_is_ignored
          [of "\<lparr> ch_before = Some ex_complaint, ch_after = None \<rparr>" ex_env ex_store "''ISS-0001''"]
        deleted_or_ownerless_write_is_ignored
          [of "\<lparr> ch_before = None, ch_after = Some (ex_complaint\<lparr> c_userId := None \<rparr>) \<rparr>"
              ex_env ex_store "''ISS-0001''"]
  by simp


section \<open>Kinds of the entries each path logs\<close>

lemma sendNotification_logs:
  "notificationLogs (snd (sendNotification e s userId cid ty payload)) = notificationLogs s
   \<or> (\<exists>entry. notificationLogs (snd (sendNotification e s userId cid ty payload))
                  = notificationLogs s @ [entry]
              \<and> l_type entry = type_str ty)"
  by (auto simp add: sendNotification_def sendNotification_try_def logNotification_eq
      logged_def notificationLog_def failedLog_def split: option.splits)

lemma triggerNotification_logs:
  "notificationLogs (snd (triggerNotification e s trigger)) = notificationLogs s
   \<or> (\<exists>entry ty. notificationLogs (snd (triggerNotification e s trigger))
                     = notificationLogs s @ [entry]
                 \<and> notificationType_of (tr_newStatus trigger) = Some ty
                 \<and> l_type entry = type_str ty)"
proof (cases "fetchUserComplaintById e s (tr_complaintId trigger)")
  case (Inl err)
  then show ?thesis by (simp add: triggerNotification_def triggerNotification_try_def)
next
  case (Inr found)
  show ?thesis
  proof (cases found)
    case None
    with Inr show ?thesis by (simp add: triggerNotification_def triggerNotification_try_def)
  next
    case (Some cmp)
    show ?thesis
    proof (cases "notificationType_of (tr_newStatus trigger)")
      case N: None
      with Inr Some show ?thesis
        by (simp add: triggerNotification_def triggerNotification_try_def)
    next
      case T: (Some ty)
      let ?r = "sendNotification e s (tr_userId trigger) (tr_complaintId trigger) ty
                  (generateNotificationContent ty cmp)"
      have "snd (triggerNotification e s trigger) = snd ?r"
        using Inr Some T
        by (cases ?r; cases "fst ?r")
           (simp_all add: triggerNotification_def triggerNotification_try_def)
      then show ?thesis
        using sendNotification_logs [of e s "tr_userId trigger" "tr_complaintId trigger" ty
                "generateNotificationContent ty cmp"] T
        by auto
    qed
  qed
qed

lemma type_str_of_status:
  "notificationType_of st = Some ty \<Longrightarrow>
   type_str ty = ''confirmation'' \<and> st = Submitted
   \<or> type_str ty = ''acknowledgment'' \<and> st = InProgress
   \<or> type_str ty = ''resolution'' \<and> st = Resolved"
  by (cases st) auto

lemma updateStatusAndNotify_logs:
  "notificationLogs (snd (updateStatusAndNotify e s cid st who opts)) = notificationLogs s
   \<or> (\<exists>entry cmp. complaints s cid = Some cmp
          \<and> notificationLogs (snd (updateStatusAndNotify e s cid st who opts))
              = notificationLogs s @ [entry]
          \<and> (l_type entry = ''confirmation'' \<and> st = Submitted
             \<or> l_type entry = ''acknowledgment'' \<and> st = InProgress
             \<or> l_type entry = ''resolution'' \<and> st = Resolved))"
proof (cases "fetchUserComplaintById e s cid")
  case (Inl err)
  then show ?thesis by (simp add: updateStatusAndNotify_def)
next
  case (Inr found)
  show ?thesis
  proof (cases found)
    case None
    with Inr show ?thesis by (simp add: updateStatusAndNotify_def)
  next
    case (Some cmp)
    have ex: "complaints s cid = Some cmp"
      using Inr Some by (simp add: fetchUserComplaintById_def split: option.splits)
    obtain r s' where u:
      "updateComplaintStatus e s cid (orchestrator_update e st who opts) = (r, s')"
      by (cases "updateComplaintStatus e s cid (orchestrator_update e st who opts)")
    have l: "notificationLogs s' = notificationLogs s"
      using updateComplaintStatus_other(2) [of e s cid "orchestrator_update e st who opts"] u
      by simp
    show ?thesis
    proof (cases r)
      case E: (Inl err)
      with Inr Some u l show ?thesis by (simp add: updateStatusAndNotify_def)
    next
      case R: (Inr v)
      let ?tr = "\<lparr> tr_complaintId = cid, tr_userId = c_userId cmp,
                   tr_previousStatus = Some (or_default (c_status cmp) ''submitted''),
                   tr_newStatus = st, tr_updatedBy = who, tr_notes = o_notes opts \<rparr>"
      have eq: "updateStatusAndNotify e s cid st who opts = triggerNotification e s' ?tr"
        using Inr Some u R by (simp add: updateStatusAndNotify_def)
      from triggerNotification_logs [of e s' ?tr]
      show ?thesis
      proof
        assume "notificationLogs (snd (triggerNotification e s' ?tr)) = notificationLogs s'"
        then show ?thesis using eq l by simp
      next
        assume "\<exists>entry ty. notificationLogs (snd (triggerNotification e s' ?tr))
                              = notificationLogs s' @ [entry]
                  \<and> notificationType_of (tr_newStatus ?tr) = Some ty
                  \<and> l_type entry = type_str ty"
        then obtain entry ty where
          a: "notificationLogs (snd (triggerNotification e s' ?tr))
                = notificationLogs s' @ [entry]"
          and b: "notificationType_of st = Some ty" and c: "l_type entry = type_str ty"
          by auto
        from type_str_of_status [OF b] c
        have "l_type entry = ''confirmation'' \<and> st = Submitted
              \<or> l_type entry = ''acknowledgment'' \<and> st = InProgress
              \<or> l_type entry = ''resolution'' \<and> st = Resolved"
          by simp
        with a eq l ex show ?thesis by auto
      qed
    qed
  qed
qed

lemma trigger_send_logs:
  "notificationLogs (snd (trigger_send e s newData cid nt td)) = notificationLogs s
   \<or> notificationLogs (snd (trigger_send e s newData cid nt td))
       = notificationLogs s @ [\<lparr> l_userId = c_userId newData, l_complaintId = cid,
            l_type = nt, l_title = ct_title (fn_generateNotificationContent nt newData),
            l_body = ct_body (fn_generateNotificationContent nt newData),
            l_sentAt = clock_now e, l_status = ''sent'',
            l_fcmToken = Some (t_token td),
            l_messageId = (case send e of Inr response \<Rightarrow> Some response | Inl err \<Rightarrow> None),
            l_sentBy = None, l_error = None \<rparr>]"
  by (simp add: trigger_send_def Let_def split: option.splits sum.splits)

lemma notificationType_for_cases:
  "notificationType_for before newData = Some nt \<Longrightarrow>
   nt = ''confirmation'' \<and> before = None
   \<or> (\<exists>old. before = Some old \<and> c_status old \<noteq> c_status newData
         \<and> (nt = ''acknowledgment'' \<and> c_status newData = Some ''in-progress''
            \<or> nt = ''resolution'' \<and> c_status newData = Some ''resolved''))"
  by (auto simp add: notificationType_for_def split: option.splits if_splits)

lemma onComplaintStatusChange_logs:
  "notificationLogs (snd (onComplaintStatusChange e s ch cid)) = notificationLogs s
   \<or> (\<exists>entry newData. ch_after ch = Some newData
          \<and> notificationLogs (snd (onComplaintStatusChange e s ch cid))
              = notificationLogs s @ [entry]
          \<and> (l_type entry = ''confirmation'' \<and> ch_before ch = None
             \<or> (\<exists>old. ch_before ch = Some old \<and> c_status old \<noteq> c_status newData
                   \<and> (l_type entry = ''acknowledgment''
                         \<and> c_status newData = Some ''in-progress''
                      \<or> l_type entry = ''resolution''
                         \<and> c_status newData = Some ''resolved''))))"
proof -
  have snd_eq: "snd (onComplaintStatusChange e s ch cid)
                  = snd (onComplaintStatusChange_try e s ch cid)"
    by (cases "onComplaintStatusChange_try e s ch cid";
        cases "fst (onComplaintStatusChange_try e s ch cid)")
       (simp_all add: onComplaintStatusChange_def)
  show ?thesis
  proof (cases "ch_after ch")
    case None
    then show ?thesis by (simp add: snd_eq onComplaintStatusChange_try_def)
  next
    case (Some newData)
    show ?thesis
    proof (cases "notificationType_for (ch_before ch) newData")
      case N: None
      with Some show ?thesis by (simp add: snd_eq onComplaintStatusChange_try_def)
    next
      case T: (Some nt)
      let ?key = "tmpl (c_userId newData) @ ''_web''"
      show ?thesis
      proof (cases "truthy (c_userId newData) \<and> token_get e = None
                     \<and> (\<exists>td. fcmTokens s ?key = Some td \<and> t_isActive td)")
        case False
        with Some T show ?thesis
          by (auto simp add: snd_eq onComplaintStatusChange_try_def split: option.splits)
      next
        case True
        then obtain td where td: "fcmTokens s ?key = Some td" "t_isActive td" by auto
        have eq: "onComplaintStatusChange_try e s ch cid = trigger_send e s newData cid nt td"
          using True Some T td by (simp add: onComplaintStatusChange_try_def)
        from trigger_send_logs [of e s newData cid nt td]
        show ?thesis
        proof
          assume "notificationLogs (snd (trigger_send e s newData cid nt td))
                    = notificationLogs s"
          then show ?thesis by (simp add: snd_eq eq)
        next
          assume a: "notificationLogs (snd (trigger_send e s newData cid nt td))
              = notificationLogs s @ [\<lparr> l_userId = c_userId newData, l_complaintId = cid,
                  l_type = nt, l_title = ct_title (fn_generateNotificationContent nt newData),
                  l_body = ct_body (fn_generateNotificationContent nt newData),
                  l_sentAt = clock_now e, l_status = ''sent'',
                  l_fcmToken = Some (t_token td),
                  l_messageId = (case send e of Inr response \<Rightarrow> Some response
                                 | Inl err \<Rightarrow> None),
                  l_sentBy = None, l_error = None \<rparr>]"
          from notificationType_for_cases [OF T] a Some
          show ?thesis
            by (simp add: snd_eq eq)
        qed
      qed
    qed
  qed
qed


text \<open>
  Claim C3, amended. Each run of a dispatch path appends at most one entry to the
  notification log, and its kind follows from the triggering write, by a rule of the
  path. Trigger handler: kind \<^verbatim>\<open>confirmation\<close> only when there was no document before
  the write, whatever the new status; \<^verbatim>\<open>acknowledgment\<close> only when there was a
  document before, the status differs from the old one and is \<^verbatim>\<open>'in-progress'\<close>;
  \<^verbatim>\<open>resolution\<close> likewise with \<^verbatim>\<open>'resolved'\<close>. Orchestrator: the complaint exists
  before the write, and the kind is \<^verbatim>\<open>confirmation\<close> only for the new status
  \<^verbatim>\<open>'submitted'\<close>, \<^verbatim>\<open>acknowledgment\<close> only for \<^verbatim>\<open>'in-progress'\<close>, \<^verbatim>\<open>resolution\<close>
  only for \<^verbatim>\<open>'resolved'\<close>, whether or not the status changed.
\<close>

theorem log_kind_follows_each_path:
  "(notificationLogs (snd (onComplaintStatusChange e s ch cid)) = notificationLogs s
    \<or> (\<exists>entry newData. ch_after ch = Some newData
          \<and> notificationLogs (snd (onComplaintStatusChange e s ch cid))
              = notificationLogs s @ [entry]
          \<and> (l_type entry = ''confirmation'' \<and> ch_before ch = None
             \<or> (\<exists>old. ch_before ch = Some old \<and> c_status old \<noteq> c_status newData
                   \<and> (l_type entry = ''acknowledgment''
                         \<and> c_status newData = Some ''in-progress''
                      \<or> l_type entry = ''resolution''
                         \<and> c_status newData = Some ''resolved'')))))
   \<and> (notificationLogs (snd (updateStatusAndNotify e s cid' st who opts)) = notificationLogs s
    \<or> (\<exists>entry cmp. complaints s cid' = Some cmp
          \<and> notificationLogs (snd (updateStatusAndNotify e s cid' st who opts))
              = notificationLogs s @ [entry]
          \<and> (l_type entry = ''confirmation'' \<and> st = Submitted
             \<or> l_type entry = ''acknowledgment'' \<and> st = InProgress
             \<or> l_type entry = ''resolution'' \<and> st = Resolved)))"
  using onComplaintStatusChange_logs [of e s ch cid]
        updateStatusAndNotify_logs [of e s cid' st who opts]
  by (rule conjI)

lemma ex_trigger_new_in_progress:
  "map l_type (notificationLogs (snd (onComplaintStatusChange ex_env ex_store
       \<lparr> ch_before = None,
         ch_after = Some (ex_complaint\<lparr> c_status := Some ''in-progress'' \<rparr>) \<rparr> ''ISS-0001'')))
     = [''confirmation'']"
  by (simp add: onComplaintStatusChange_def onComplaintStatusChange_try_def
      notificationType_for_def trigger_send_def ex_env_def ex_store_def ex_complaint_def
      ex_token_def Let_def)

lemma ex_orchestrator_submitted:
  "map l_type (notificationLogs (snd (updateStatusAndNotify ex_env ex_store ''ISS-0001''
       Submitted ''system'' ex_options)))
     = [''confirmation'']"
  by (simp add: updateStatusAndNotify_def fetchUserComplaintById_def
      updateComplaintStatus_def updateComplaintStatus_try_def addStatusHistory_def
      addStatusHistory_try_def triggerNotification_def triggerNotification_try_def
      sendNotification_def sendNotification_try_def logNotification_def
      logNotification_try_def notificationLog_def
      ex_env_def ex_store_def ex_token_def ex_complaint_def Let_def)

theorem log_kind_follows_each_path_witness:
  "notificationLogs ex_store = []
   \<and> map l_type (notificationLogs (snd (onComplaintStatusChange ex_env ex_store
         \<lparr> ch_before = Some ex_complaint,
           ch_after = Some (ex_complaint\<lparr> c_status := Some ''resolved'' \<rparr>) \<rparr>
         ''ISS-0001''))) = [''resolution'']
   \<and> map l_type (notificationLogs (snd (updateStatusAndNotify ex_env ex_store ''ISS-0001''
         InProgress ''admin'' ex_options))) = [''acknowledgment'']"
proof -
  have l: "notificationLogs ex_store = []" by (simp add: ex_store_def)
  note th = log_kind_follows_each_path
              [of ex_env ex_store
                  "\<lparr> ch_before = Some ex_complaint,
                     ch_after = Some (ex_complaint\<lparr> c_status := Some ''resolved'' \<rparr>) \<rparr>"
                  "''ISS-0001''" "''ISS-0001''" InProgress "''admin''" ex_options]
  have n1: "length (notificationLogs (snd (onComplaintStatusChange ex_env ex_store
         \<lparr> ch_before = Some ex_complaint,
           ch_after = Some (ex_complaint\<lparr> c_status := Some ''resolved'' \<rparr>) \<rparr>
         ''ISS-0001''))) = 1"
    by (simp add: onComplaintStatusChange_def onComplaintStatusChange_try_def
        notificationType_for_def trigger_send_def ex_env_def ex_store_def ex_complaint_def
        ex_token_def Let_def)
  have n2: "length (notificationLogs (snd (updateStatusAndNotify ex_env ex_store ''ISS-0001''
         InProgress ''admin'' ex_options))) = 1"
    by (simp add: updateStatusAndNotify_def fetchUserComplaintById_def
        updateComplaintStatus_def updateComplaintStatus_try_def addStatusHistory_def
        addStatusHistory_try_def triggerNotification_def triggerNotification_try_def
        sendNotification_def sendNotification_try_def logNotification_def
        logNotification_try_def notificationLog_def
        ex_env_def ex_store_def ex_token_def ex_complaint_def Let_def)
  have s: "c_status ex_complaint = Some ''submitted''" by (simp add: ex_complaint_def)
  have a: "map l_type (notificationLogs (snd (onComplaintStatusChange ex_env ex_store
         \<lparr> ch_before = Some ex_complaint,
           ch_after = Some (ex_complaint\<lparr> c_status := Some ''resolved'' \<rparr>) \<rparr>
         ''ISS-0001''))) = [''resolution'']"
    using th [THEN conjunct1] l n1 by auto
  have b: "map l_type (notificationLogs (snd (updateStatusAndNotify ex_env ex_store ''ISS-0001''
         InProgress ''admin'' ex_options))) = [''acknowledgment'']"
    using th [THEN conjunct2] l n2 by auto
  show ?thesis using l a b by blast
qed

text \<open>
  The two ways in which a confirmation is logged without a first write into status
  \<^verbatim>\<open>'submitted'\<close>: the trigger handler on a complaint created with status
  \<^verbatim>\<open>'in-progress'\<close>, and the orchestrator setting an existing complaint to
  \<^verbatim>\<open>'submitted'\<close>.
\<close>

theorem confirmation_without_new_submission:
  "ch_before \<lparr> ch_before = None,
               ch_after = Some (ex_complaint\<lparr> c_status := Some ''in-progress'' \<rparr>) \<rparr> = None
   \<and> c_status (ex_complaint\<lparr> c_status := Some ''in-progress'' \<rparr>) = Some ''in-progress''
   \<and> map l_type (notificationLogs (snd (onComplaintStatusChange ex_env ex_store
         \<lparr> ch_before = None,
           ch_after = Some (ex_complaint\<lparr> c_status := Some ''in-progress'' \<rparr>) \<rparr>
         ''ISS-0001''))) = [''confirmation'']
   \<and> complaints ex_store ''ISS-0001'' = Some ex_complaint
   \<and> map l_type (notificationLogs (snd (updateStatusAndNotify ex_env ex_store ''ISS-0001''
         Submitted ''system'' ex_options))) = [''confirmation'']"
  using ex_trigger_new_in_progress ex_orchestrator_submitted
  by (simp add: ex_store_def)

section \<open>The callable endpoint: properties\<close>

lemma sendCustomNotification_unauthenticated:
  "sendCustomNotification e s None d
     = (Inl (HttpsError ''unauthenticated'' ''User must be authenticated''), s)"
  by (simp add: sendCustomNotification_def)

lemma sendCustomNotification_invalid_argument:
  "\<not> truthy (d_userId d) \<or> \<not> truthy (d_complaintId d) \<or> \<not> truthy (d_title d)
     \<or> \<not> truthy (d_body d) \<Longrightarrow>
   sendCustomNotification e s (Some uid) d
     = (Inl (HttpsError ''invalid-argument'' ''Missing required fields''), s)"
  by (auto simp add: sendCustomNotification_def)

lemma sendCustomNotification_try_caught:
  "truthy (d_userId d) \<Longrightarrow> truthy (d_complaintId d) \<Longrightarrow> truthy (d_title d) \<Longrightarrow>
   truthy (d_body d) \<Longrightarrow> sendCustomNotification_try e s uid d = (Inl err, s') \<Longrightarrow>
   sendCustomNotification e s (Some uid) d
     = (Inl (HttpsError ''internal'' (error_message err)), s')"
  by (simp add: sendCustomNotification_def)

lemma sendCustomNotification_error_kinds:
  assumes "fst (sendCustomNotification e s auth d) = Inl err"
  shows "\<exists>m. err = HttpsError ''unauthenticated'' m \<or> err = HttpsError ''invalid-argument'' m
            \<or> err = HttpsError ''internal'' m"
proof (cases auth)
  case None
  with assms show ?thesis by (auto simp add: sendCustomNotification_def)
next
  case (Some uid)
  show ?thesis
  proof (cases "\<not> truthy (d_userId d) \<or> \<not> truthy (d_complaintId d)
                 \<or> \<not> truthy (d_title d) \<or> \<not> truthy (d_body d)")
    case True
    with assms Some show ?thesis
      using sendCustomNotification_invalid_argument [OF True, of e s uid] by auto
  next
    case False
    with assms Some show ?thesis
      by (cases "sendCustomNotification_try e s uid d";
          cases "fst (sendCustomNotification_try e s uid d)")
         (auto simp add: sendCustomNotification_def)
  qed
qed

lemma sendCustomNotification_success:
  assumes "truthy (d_userId d)" "truthy (d_complaintId d)" "truthy (d_title d)"
    "truthy (d_body d)"
    and "token_get e = None" and "fcmTokens s (tmpl (d_userId d) @ ''_web'') = Some td"
    and "t_isActive td" and "send e = Inr response" and "log_add e = None"
  shows "fst (sendCustomNotification e s (Some uid) d) = Inr (True, response)"
  using assms
  by (simp add: sendCustomNotification_def sendCustomNotification_try_def Let_def)

text \<open>
  Claim C2. An authenticated call with all four required fields should fail with kind
  \<^verbatim>\<open>not-found\<close> when the target user has no token record, and with kind
  \<^verbatim>\<open>failed-precondition\<close> when the record is inactive. The two errors are thrown
  inside the \<^verbatim>\<open>try\<close> block, whose \<^verbatim>\<open>catch\<close> block throws every error again with kind
  \<^verbatim>\<open>internal\<close>: the caller gets \<^verbatim>\<open>internal\<close> in both cases, with the message of the
  error that was meant.
\<close>

theorem sendCustomNotification_token_errors_become_internal:
  "sendCustomNotification ex_env (ex_store\<lparr> fcmTokens := Map.empty \<rparr>) (Some ''admin'') ex_request
     = (Inl (HttpsError ''internal'' ''FCM token not found for user''),
        ex_store\<lparr> fcmTokens := Map.empty \<rparr>)
   \<and> sendCustomNotification ex_env
        (ex_store\<lparr> fcmTokens := [''u1_web'' \<mapsto> ex_token\<lparr> t_isActive := False \<rparr>] \<rparr>)
        (Some ''admin'') ex_request
     = (Inl (HttpsError ''internal'' ''FCM token is inactive''),
        ex_store\<lparr> fcmTokens := [''u1_web'' \<mapsto> ex_token\<lparr> t_isActive := False \<rparr>] \<rparr>)"
  by (simp add: sendCustomNotification_def sendCustomNotification_try_def ex_env_def
      ex_request_def ex_token_def)

theorem sendCustomNotification_token_errors_become_internal_witness:
  "truthy (d_userId ex_request) \<and> truthy (d_complaintId ex_request)
   \<and> truthy (d_title ex_request) \<and> truthy (d_body ex_request)
   \<and> fst (sendCustomNotification ex_env (ex_store\<lparr> fcmTokens := Map.empty \<rparr>)
            (Some ''admin'') ex_request)
       = Inl (HttpsError ''internal'' ''FCM token not found for user'')
   \<and> fst (sendCustomNotification ex_env
            (ex_store\<lparr> fcmTokens := [''u1_web'' \<mapsto> ex_token\<lparr> t_isActive := False \<rparr>] \<rparr>)
            (Some ''admin'') ex_request)
       = Inl (HttpsError ''internal'' ''FCM token is inactive'')"
  using sendCustomNotification_token_errors_become_internal
  by (simp add: ex_request_def)

end
